theory Spec2Isabelle
  imports Main
begin

section \<open>Exceptions and observable effects\<close>

text \<open>
  Every \<^verbatim>\<open>raise\<close> of \<^verbatim>\<open>endpoint.py\<close> is a value of \<open>error\<close>. \<open>RecursionError\<close> is what
  Python raises when the interpreter's frame budget is used up; \<open>TypeError\<close> is
  subscripting \<^verbatim>\<open>None\<close>; \<open>Uncaught\<close> stands for an exception of a collaborator that
  no handler of this module catches.
\<close>

datatype error =
    ValueError
  | NameError string
  | TypeError
  | RecursionError
  | IntegrityError
  | NoPathException
  | Uncaught string

text \<open>
  What a call does besides returning: the SQL statements it hands to
  \<^verbatim>\<open>cursor.execute\<close> and the lines it prints, in order.
\<close>

datatype event = Executed string | Printed string

fun printed :: "event list \<Rightarrow> string list" where
  "printed [] = []"
| "printed (Printed s # tr) = s # printed tr"
| "printed (Executed q # tr) = printed tr"

fun executed :: "event list \<Rightarrow> string list" where
  "executed [] = []"
| "executed (Executed q # tr) = q # executed tr"
| "executed (Printed s # tr) = executed tr"

section \<open>Python and SQLite text primitives\<close>

definition is_digit :: "char \<Rightarrow> bool" where
  "is_digit c = (48 \<le> (of_char c :: nat) \<and> (of_char c :: nat) \<le> 57)"

text \<open>\<^verbatim>\<open>str.isdigit\<close>: a non-empty string of digits.\<close>

definition isdigit :: "string \<Rightarrow> bool" where
  "isdigit s = (s \<noteq> [] \<and> list_all is_digit s)"

text \<open>\<^verbatim>\<open>int(s)\<close> on a string of digits.\<close>

definition int_of_str :: "string \<Rightarrow> nat" where
  "int_of_str s = foldl (\<lambda>n c. 10 * n + ((of_char c :: nat) - 48)) 0 s"

text \<open>\<^verbatim>\<open>str(n)\<close>, which is also how SQLite stores an integer in a TEXT column.\<close>

fun str_of_nat :: "nat \<Rightarrow> string" where
  "str_of_nat n =
     (if n < 10 then [char_of (48 + n)]
      else str_of_nat (n div 10) @ [char_of (48 + n mod 10)])"

declare str_of_nat.simps [simp del]

text \<open>\<^verbatim>\<open>s.partition(c)\<close> for a one-character separator.\<close>

definition str_partition :: "char \<Rightarrow> string \<Rightarrow> string \<times> string \<times> string" where
  "str_partition c s =
     (if c \<in> set s
      then (takeWhile (\<lambda>x. x \<noteq> c) s, [c], tl (dropWhile (\<lambda>x. x \<noteq> c) s))
      else (s, [], []))"

definition ascii_lower :: "char \<Rightarrow> char" where
  "ascii_lower c =
     (if 65 \<le> (of_char c :: nat) \<and> (of_char c :: nat) \<le> 90
      then char_of ((of_char c :: nat) + 32) else c)"

text \<open>
  SQLite's \<^verbatim>\<open>LIKE\<close>: \<^verbatim>\<open>%\<close> matches any run of characters, \<^verbatim>\<open>_\<close> exactly one, and
  letters compare without regard to ASCII case. First argument the pattern, second
  the text.
\<close>

fun sql_like :: "string \<Rightarrow> string \<Rightarrow> bool" where
  "sql_like [] [] = True"
| "sql_like [] (c # cs) = False"
| "sql_like (p # ps) [] = (p = CHR ''%'' \<and> sql_like ps [])"
| "sql_like (p # ps) (c # cs) =
     (if p = CHR ''%'' then sql_like ps (c # cs) \<or> sql_like (p # ps) cs
      else if p = CHR ''_'' then sql_like ps cs
      else ascii_lower p = ascii_lower c \<and> sql_like ps cs)"

text \<open>
  \<^verbatim>\<open>json.dumps\<close> of a list of strings (quotes and backslashes escaped), the text the
  \<^verbatim>\<open>auth\<close> column holds.
\<close>

definition json_escape :: "string \<Rightarrow> string" where
  "json_escape s =
     concat (map (\<lambda>c. if c = CHR 0x22 \<or> c = CHR 0x5C then [CHR 0x5C, c] else [c]) s)"

fun json_items :: "string list \<Rightarrow> string" where
  "json_items [] = []"
| "json_items [s] = CHR 0x22 # json_escape s @ [CHR 0x22]"
| "json_items (s # t # ss) = CHR 0x22 # json_escape s @ [CHR 0x22] @ '', '' @ json_items (t # ss)"

definition json_dumps :: "string list \<Rightarrow> string" where
  "json_dumps ss = ''['' @ json_items ss @ '']''"

section \<open>The data model\<close>

text \<open>
  A row of the \<^verbatim>\<open>endpoints\<close> table, with the columns that \<^verbatim>\<open>save\<close> writes and
  \<^verbatim>\<open>__init__\<close> reads. \<open>row_port\<close> is text: the constructor calls \<^verbatim>\<open>isdigit\<close> on the
  value it reads back. \<open>row_auth\<close> is the JSON array of the \<^verbatim>\<open>auth\<close> column, decoded.
\<close>

record endpoint_row =
  row_id :: nat
  row_host :: "nat option"
  row_ip :: string
  row_port :: string
  row_scanned :: bool
  row_reachable :: "bool option"
  row_distance :: "int option"
  row_auth :: "string list option"
  row_scope :: bool
  row_found :: "nat option"

text \<open>
  The \<^verbatim>\<open>Endpoint\<close> object. \<open>port_str\<close> is the private \<^verbatim>\<open>__port\<close>, a string of digits
  (the constructor refuses anything else); \<open>eid\<close> is \<^verbatim>\<open>id\<close>;
  \<open>host\<close> and \<open>found\<close> hold the id of the \<^verbatim>\<open>Host\<close> and of the \<^verbatim>\<open>Endpoint\<close> they refer
  to, the only attribute of either that this module reads. \<open>reachable\<close> is Python's
  \<^verbatim>\<open>None\<close>/\<^verbatim>\<open>True\<close>/\<^verbatim>\<open>False\<close>: unknown, reachable, unreachable. \<open>auth\<close> is the set of
  offered methods, kept as a duplicate-free list in the order \<^verbatim>\<open>list(self.auth)\<close>
  enumerates it.
\<close>

record Endpoint =
  ip :: string
  port_str :: string
  host :: "nat option"
  eid :: "nat option"
  scope :: bool
  scanned :: bool
  reachable :: "bool option"
  distance :: "int option"
  found :: "nat option"
  auth :: "string list"

text \<open>The \<^verbatim>\<open>port\<close> property: \<^verbatim>\<open>int(self.__port)\<close>.\<close>

definition port :: "Endpoint \<Rightarrow> nat" where
  "port self = int_of_str (port_str self)"

text \<open>
  Modelled from the spec: the \<^verbatim>\<open>Connection\<close> class is not in this module. A gateway
  is a Connection with the Endpoint it terminates on (whose \<open>host\<close> may be unknown)
  and a hop distance.
\<close>

record Connection =
  endpoint :: Endpoint
  conn_distance :: int

text \<open>
  A route edge: the origin Host (or none) and the destination Endpoint, named by its
  identity (ip, port).
\<close>

type_synonym edge = "nat option \<times> string \<times> nat"

text \<open>
  The workspace database: the \<^verbatim>\<open>endpoints\<close> table, the ids of the known Hosts, the
  table of route edges with their ids, and the registry that tells which Connection
  gateways to which Endpoint.
\<close>

record db =
  endpoints :: "endpoint_row list"
  hosts :: "nat list"
  paths :: "(nat \<times> edge) list"
  gateways :: "((string \<times> nat) \<times> Connection) list"

text \<open>\<^verbatim>\<open>cursor.fetchone()\<close> after a \<^verbatim>\<open>SELECT ... WHERE\<close>: the first matching row.\<close>

definition fetchone :: "(endpoint_row \<Rightarrow> bool) \<Rightarrow> endpoint_row list \<Rightarrow> endpoint_row option" where
  "fetchone P rows = List.find P rows"

text \<open>Modelled from the spec: Host lookup by id (\<^verbatim>\<open>Host.find_one\<close> is not in this module).\<close>

definition Host_find_one :: "db \<Rightarrow> nat option \<Rightarrow> nat option" where
  "Host_find_one d host_id =
     (case host_id of
        None \<Rightarrow> None
      | Some h \<Rightarrow> if h \<in> set (hosts d) then Some h else None)"

section \<open>Construction and lookup\<close>

definition new_endpoint :: "string \<Rightarrow> string \<Rightarrow> Endpoint" where
  "new_endpoint ip_arg port_arg =
     \<lparr>ip = ip_arg, port_str = port_arg, host = None, eid = None, scope = True,
      scanned = False, reachable = None, distance = None, found = None, auth = []\<rparr>"

definition sql_init :: string where
  "sql_init = ''SELECT id,host,scanned,reachable,distance,auth,scope,found FROM endpoints WHERE ip=? AND port=?''"

definition sql_by_id :: string where
  "sql_by_id = ''SELECT ip,port FROM endpoints WHERE id=?''"

definition sql_by_ip_port :: string where
  "sql_by_ip_port = ''SELECT ip,port FROM endpoints WHERE ip=? and port=?''"

text \<open>
  \<^verbatim>\<open>Endpoint.__init__\<close> and \<^verbatim>\<open>Endpoint.find_one\<close> call each other: the constructor loads
  the Endpoint named by the \<^verbatim>\<open>found\<close> column through \<^verbatim>\<open>find_one\<close>, which constructs it.
  \<open>ip_address\<close> is the standard library's address check (it raises ValueError where
  the predicate is false); \<open>depth\<close> is the number of frames the interpreter still
  allows, so a cycle of \<^verbatim>\<open>found\<close> references ends in RecursionError.
\<close>

fun Endpoint_init ::
    "(string \<Rightarrow> bool) \<Rightarrow> nat \<Rightarrow> db \<Rightarrow> string \<Rightarrow> string \<Rightarrow> (error + Endpoint) \<times> event list"
  and find_one ::
    "(string \<Rightarrow> bool) \<Rightarrow> nat \<Rightarrow> db \<Rightarrow> nat option \<Rightarrow> string option \<Rightarrow>
       (error + Endpoint option) \<times> event list"
where
  "Endpoint_init ip_address 0 d ip_arg port_arg = (Inl RecursionError, [])"
| "Endpoint_init ip_address (Suc depth) d ip_arg port_arg =
     (if \<not> ip_address ip_arg then (Inl ValueError, [])
      else if \<not> isdigit port_arg then (Inl ValueError, [])
      else
        (case fetchone (\<lambda>r. row_ip r = ip_arg \<and> row_port r = str_of_nat (int_of_str port_arg))
                (endpoints d) of
           None \<Rightarrow> (Inr (new_endpoint ip_arg port_arg), [Executed sql_init])
         | Some savedEndpoint \<Rightarrow>
             (case row_found savedEndpoint of
                None \<Rightarrow>
                  (Inr ((new_endpoint ip_arg port_arg)
                     \<lparr>eid := Some (row_id savedEndpoint),
                      host := Host_find_one d (row_host savedEndpoint),
                      scanned := row_scanned savedEndpoint,
                      reachable := row_reachable savedEndpoint,
                      distance := row_distance savedEndpoint,
                      auth := (case row_auth savedEndpoint of None \<Rightarrow> [] | Some js \<Rightarrow> remdups js),
                      scope := row_scope savedEndpoint\<rparr>),
                   [Executed sql_init])
              | Some f \<Rightarrow>
                  (case find_one ip_address depth d (Some f) None of
                     (Inl exc, tr) \<Rightarrow> (Inl exc, Executed sql_init # tr)
                   | (Inr fe, tr) \<Rightarrow>
                       (Inr ((new_endpoint ip_arg port_arg)
                          \<lparr>eid := Some (row_id savedEndpoint),
                           host := Host_find_one d (row_host savedEndpoint),
                           scanned := row_scanned savedEndpoint,
                           reachable := row_reachable savedEndpoint,
                           distance := row_distance savedEndpoint,
                           auth := (case row_auth savedEndpoint of None \<Rightarrow> [] | Some js \<Rightarrow> remdups js),
                           scope := row_scope savedEndpoint,
                           found := (case fe of None \<Rightarrow> None | Some x \<Rightarrow> eid x)\<rparr>),
                        Executed sql_init # tr)))))"
| "find_one ip_address 0 d endpoint_id ip_port = (Inl RecursionError, [])"
| "find_one ip_address (Suc depth) d endpoint_id ip_port =
     (case endpoint_id of
        Some i \<Rightarrow>
          (if i = 0 then (Inr None, [])
           else
             (case fetchone (\<lambda>r. row_id r = i) (endpoints d) of
                None \<Rightarrow> (Inr None, [Executed sql_by_id])
              | Some row \<Rightarrow>
                  (case Endpoint_init ip_address depth d (row_ip row) (row_port row) of
                     (Inl exc, tr) \<Rightarrow> (Inl exc, Executed sql_by_id # tr)
                   | (Inr e, tr) \<Rightarrow> (Inr (Some e), Executed sql_by_id # tr))))
      | None \<Rightarrow>
          (case ip_port of
             Some s \<Rightarrow>
               (case str_partition CHR '':'' s of
                  (ip_part, sep, port_part) \<Rightarrow>
                    if port_part = [] then (Inl ValueError, [])
                    else
                      (case fetchone (\<lambda>r. row_ip r = ip_part \<and> row_port r = port_part)
                              (endpoints d) of
                         None \<Rightarrow> (Inr None, [Executed sql_by_ip_port])
                       | Some row \<Rightarrow>
                           (case Endpoint_init ip_address depth d (row_ip row) (row_port row) of
                              (Inl exc, tr) \<Rightarrow> (Inl exc, Executed sql_by_ip_port # tr)
                            | (Inr e, tr) \<Rightarrow> (Inr (Some e), Executed sql_by_ip_port # tr))))
           | None \<Rightarrow> (Inr None, [])))"

text \<open>
  The loop \<^verbatim>\<open>for row in cursor: ret.append(Endpoint(row[0],row[1]))\<close> shared by
  \<^verbatim>\<open>find_all\<close> and \<^verbatim>\<open>search\<close>: the first constructor that raises ends it.
\<close>

fun append_endpoints ::
    "(string \<Rightarrow> bool) \<Rightarrow> nat \<Rightarrow> db \<Rightarrow> endpoint_row list \<Rightarrow> (error + Endpoint list) \<times> event list"
where
  "append_endpoints ip_address depth d [] = (Inr [], [])"
| "append_endpoints ip_address depth d (row # rows) =
     (case Endpoint_init ip_address depth d (row_ip row) (row_port row) of
        (Inl exc, tr) \<Rightarrow> (Inl exc, tr)
      | (Inr e, tr) \<Rightarrow>
          (case append_endpoints ip_address depth d rows of
             (Inl exc, tr') \<Rightarrow> (Inl exc, tr @ tr')
           | (Inr es, tr') \<Rightarrow> (Inr (e # es), tr @ tr')))"

text \<open>
  \<^verbatim>\<open>Endpoint.find_all(scope, found)\<close>. With \<^verbatim>\<open>found\<close> given, both branches evaluate
  \<^verbatim>\<open>endpoint.id if endpoint is not None else None\<close> to build the query's parameters;
  no name \<^verbatim>\<open>endpoint\<close> is bound in the method or the module, so the evaluation raises
  NameError before \<^verbatim>\<open>execute\<close> is called.
\<close>

definition find_all ::
    "(string \<Rightarrow> bool) \<Rightarrow> nat \<Rightarrow> db \<Rightarrow> bool option \<Rightarrow> Endpoint option \<Rightarrow>
       (error + Endpoint list) \<times> event list"
where
  "find_all ip_address depth d scope_arg found_arg =
     (case found_arg of
        None \<Rightarrow>
          (case scope_arg of
             None \<Rightarrow>
               (case append_endpoints ip_address depth d (endpoints d) of
                  (r, tr) \<Rightarrow> (r, Executed ''SELECT ip,port FROM endpoints'' # tr))
           | Some s \<Rightarrow>
               (case append_endpoints ip_address depth d
                       (filter (\<lambda>r. row_scope r = s) (endpoints d)) of
                  (r, tr) \<Rightarrow> (r, Executed ''SELECT ip,port FROM endpoints WHERE scope=?'' # tr)))
      | Some f \<Rightarrow>
          (case scope_arg of
             None \<Rightarrow> (Inl (NameError ''endpoint''), [])
           | Some s \<Rightarrow> (Inl (NameError ''endpoint''), [])))"

definition search_fields :: "string list" where
  "search_fields = [''ip'', ''port'', ''auth'']"

text \<open>The text of a column named by an allowed search field; NULL is \<open>None\<close>.\<close>

definition column_text :: "string \<Rightarrow> endpoint_row \<Rightarrow> string option" where
  "column_text field r =
     (if field = ''ip'' then Some (row_ip r)
      else if field = ''port'' then Some (row_port r)
      else if field = ''auth'' then map_option json_dumps (row_auth r)
      else None)"

definition like_column :: "string \<Rightarrow> string \<Rightarrow> endpoint_row \<Rightarrow> bool" where
  "like_column field pat r =
     (case column_text field r of None \<Rightarrow> False | Some t \<Rightarrow> sql_like pat t)"

text \<open>\<^verbatim>\<open>Endpoint.search(field, val, show_all)\<close>.\<close>

definition search ::
    "(string \<Rightarrow> bool) \<Rightarrow> nat \<Rightarrow> db \<Rightarrow> string \<Rightarrow> string \<Rightarrow> bool \<Rightarrow>
       (error + Endpoint list) \<times> event list"
where
  "search ip_address depth d field val show_all =
     (if field \<notin> set search_fields then (Inl ValueError, [])
      else if show_all then
        (case append_endpoints ip_address depth d
                (filter (like_column field (''%'' @ val @ ''%'')) (endpoints d)) of
           (r, tr) \<Rightarrow>
             (r, Printed field
                 # Executed (''SELECT ip,port FROM endpoints WHERE '' @ field @ '' LIKE ?'') # tr))
      else
        (case append_endpoints ip_address depth d
                (filter (\<lambda>r. row_scope r \<and> like_column field (''%'' @ val @ ''%'') r) (endpoints d)) of
           (r, tr) \<Rightarrow>
             (r, Printed field
                 # Executed (''SELECT ip,port FROM endpoints WHERE scope=? and '' @ field @ '' LIKE ?'')
                 # tr)))"

section \<open>Saving\<close>

definition sql_update :: string where
  "sql_update = ''UPDATE endpoints SET ip = ?, port = ?, host = ?, scanned = ?, reachable = ?, distance = ?, auth = ?, scope = ?, found = ? WHERE id = ?''"

definition sql_insert :: string where
  "sql_insert = ''INSERT INTO endpoints(ip,port,host,scanned,reachable,distance,auth,scope,found) VALUES (?,?,?,?,?,?,?,?,?) ''"

definition sql_select_id :: string where
  "sql_select_id = ''SELECT id FROM endpoints WHERE ip=? AND port=?''"

text \<open>The values \<^verbatim>\<open>save\<close> binds to the columns; an empty \<^verbatim>\<open>auth\<close> is stored as NULL.\<close>

definition row_of :: "nat \<Rightarrow> Endpoint \<Rightarrow> endpoint_row" where
  "row_of i self =
     \<lparr>row_id = i, row_host = host self, row_ip = ip self, row_port = str_of_nat (port self),
      row_scanned = scanned self, row_reachable = reachable self, row_distance = distance self,
      row_auth = (if auth self = [] then None else Some (auth self)),
      row_scope = scope self, row_found = found self\<rparr>"

definition same_key :: "Endpoint \<Rightarrow> endpoint_row \<Rightarrow> bool" where
  "same_key self r = (row_ip r = ip self \<and> row_port r = str_of_nat (port self))"

text \<open>The id SQLite gives an inserted row: one more than the largest in the table.\<close>

definition next_id :: "nat list \<Rightarrow> nat" where
  "next_id ids = Suc (fold max ids 0)"

text \<open>
  \<^verbatim>\<open>Endpoint.save\<close>: UPDATE by id when the object has one, else INSERT and read the id
  back. Modelled from the spec: the table's schema is not in this module; it enforces
  uniqueness on (ip, port), so a statement that would leave two rows with one identity
  raises IntegrityError. The result is the exception raised, if any, the object, the
  database and the statements executed.
\<close>

definition save :: "db \<Rightarrow> Endpoint \<Rightarrow> error option \<times> Endpoint \<times> db \<times> event list" where
  "save d self =
     (case eid self of
        Some i \<Rightarrow>
          (if list_ex (\<lambda>r. row_id r = i) (endpoints d)
               \<and> list_ex (\<lambda>r. row_id r \<noteq> i \<and> same_key self r) (endpoints d)
           then (Some IntegrityError, self, d, [Executed sql_update])
           else (None, self,
                 d\<lparr>endpoints := map (\<lambda>r. if row_id r = i then row_of i self else r) (endpoints d)\<rparr>,
                 [Executed sql_update]))
      | None \<Rightarrow>
          (if list_ex (same_key self) (endpoints d)
           then (Some IntegrityError, self, d, [Executed sql_insert])
           else
             (case fetchone (same_key self)
                     (endpoints d @ [row_of (next_id (map row_id (endpoints d))) self]) of
                None \<Rightarrow>
                  (Some TypeError, self,
                   d\<lparr>endpoints := endpoints d @ [row_of (next_id (map row_id (endpoints d))) self]\<rparr>,
                   [Executed sql_insert, Executed sql_select_id])
              | Some r \<Rightarrow>
                  (None, self\<lparr>eid := Some (row_id r)\<rparr>,
                   d\<lparr>endpoints := endpoints d @ [row_of (next_id (map row_id (endpoints d))) self]\<rparr>,
                   [Executed sql_insert, Executed sql_select_id]))))"

section \<open>The probe\<close>

text \<open>
  The methods of \<^verbatim>\<open>ScanSSHClient\<close> that the SSH library calls while
  \<^verbatim>\<open>create_connection\<close> runs.
\<close>

datatype callback =
    connection_made
  | auth_banner_received
  | public_key_auth_requested
  | password_auth_requested
  | kbdint_auth_requested
  | auth_completed

text \<open>
  How \<^verbatim>\<open>await asyncio.wait_for(asyncssh.create_connection(...), timeout=3.0)\<close> ends: it
  returns the connection, or raises \<^verbatim>\<open>asyncssh.Error\<close> with a code and a message,
  \<^verbatim>\<open>OSError\<close> with an errno (or none), \<^verbatim>\<open>asyncio.TimeoutError\<close> at the deadline, or
  something else.
\<close>

datatype conn_result =
    Returned
  | asyncssh_Error int string
  | OSError "int option"
  | TimeoutError
  | OtherError string

text \<open>What the network does with one probe: the callbacks, in order, and the end.\<close>

record probe =
  callbacks :: "callback list"
  result :: conn_result

text \<open>
  The class hierarchy, as far as the handlers test it. Since Python 3.11
  \<^verbatim>\<open>asyncio.TimeoutError\<close> is the built-in \<^verbatim>\<open>TimeoutError\<close>, a subclass of \<^verbatim>\<open>OSError\<close>,
  and \<^verbatim>\<open>wait_for\<close> raises it with no errno; \<^verbatim>\<open>asyncssh.Error\<close> is not an \<^verbatim>\<open>OSError\<close>.
\<close>

fun isinstance_OSError :: "conn_result \<Rightarrow> bool" where
  "isinstance_OSError (OSError en) = True"
| "isinstance_OSError TimeoutError = True"
| "isinstance_OSError Returned = False"
| "isinstance_OSError (asyncssh_Error code msg) = False"
| "isinstance_OSError (OtherError name) = False"

fun errno :: "conn_result \<Rightarrow> int option" where
  "errno (OSError en) = en"
| "errno TimeoutError = None"
| "errno Returned = None"
| "errno (asyncssh_Error code msg) = None"
| "errno (OtherError name) = None"

definition EHOSTUNREACH :: int where
  "EHOSTUNREACH = 113"

definition ENETUNREACH :: int where
  "ENETUNREACH = 101"

text \<open>
  The results on which \<^verbatim>\<open>__asyncScan\<close> goes on to its end: the call returned, or the
  server denied the login (\<^verbatim>\<open>asyncssh.Error\<close> with code 14).
\<close>

fun probe_succeeds :: "conn_result \<Rightarrow> bool" where
  "probe_succeeds Returned = True"
| "probe_succeeds (asyncssh_Error code msg) = (code = 14)"
| "probe_succeeds (OSError en) = False"
| "probe_succeeds TimeoutError = False"
| "probe_succeeds (OtherError name) = False"

text \<open>\<^verbatim>\<open>set.add\<close> on the list that stands for the set.\<close>

definition set_add :: "string \<Rightarrow> string list \<Rightarrow> string list" where
  "set_add x xs = (if x \<in> set xs then xs else xs @ [x])"

text \<open>One callback of \<^verbatim>\<open>ScanSSHClient\<close> acting on the Endpoint it closes over.\<close>

fun ScanSSHClient :: "Endpoint \<Rightarrow> callback \<Rightarrow> Endpoint" where
  "ScanSSHClient ep connection_made = ep\<lparr>reachable := Some True\<rparr>"
| "ScanSSHClient ep auth_banner_received = ep"
| "ScanSSHClient ep public_key_auth_requested =
     ep\<lparr>auth := set_add ''privkey'' (auth ep)\<rparr>"
| "ScanSSHClient ep password_auth_requested =
     ep\<lparr>auth := set_add ''password'' (auth ep)\<rparr>"
| "ScanSSHClient ep kbdint_auth_requested =
     ep\<lparr>auth := set_add ''kbdint'' (auth ep)\<rparr>"
| "ScanSSHClient ep auth_completed = ep"

text \<open>
  The end of \<^verbatim>\<open>__asyncScan\<close>, reached when no handler returned: close the connection
  (any failure of that is swallowed), print, set the distance, save, return True.
\<close>

definition asyncScan_reached ::
    "db \<Rightarrow> Endpoint \<Rightarrow> Connection option \<Rightarrow> bool \<Rightarrow> (error + bool) \<times> Endpoint \<times> db \<times> event list"
where
  "asyncScan_reached d self gateway silent =
     (case save d (self\<lparr>distance :=
                     Some (case gateway of None \<Rightarrow> 0 | Some g \<Rightarrow> conn_distance g + 1)\<rparr>) of
        (Some exc, self', d', tr) \<Rightarrow>
          (Inl exc, self', d', (if silent then [] else [Printed ''Done'']) @ tr)
      | (None, self', d', tr) \<Rightarrow>
          (Inr True, self', d', (if silent then [] else [Printed ''Done'']) @ tr))"

text \<open>The handler \<^verbatim>\<open>except OSError as e\<close> (source lines 270 to 275).\<close>

definition except_OSError ::
    "db \<Rightarrow> Endpoint \<Rightarrow> bool \<Rightarrow> int option \<Rightarrow> (error + bool) \<times> Endpoint \<times> db \<times> event list"
where
  "except_OSError d self silent en =
     (Inr False, self, d,
      (if en = Some EHOSTUNREACH \<and> \<not> silent then [Printed ''No route to host''] else []))"

text \<open>The handler \<^verbatim>\<open>except asyncio.TimeoutError\<close> (source lines 276 to 281).\<close>

definition except_TimeoutError ::
    "db \<Rightarrow> Endpoint \<Rightarrow> bool \<Rightarrow> (error + bool) \<times> Endpoint \<times> db \<times> event list"
where
  "except_TimeoutError d self silent =
     (case save d (self\<lparr>reachable := Some False\<rparr>) of
        (Some exc, self', d', tr) \<Rightarrow> (Inl exc, self', d', tr)
      | (None, self', d', tr) \<Rightarrow>
          (Inr False, self', d', tr @ (if silent then [] else [Printed ''Timeout''])))"

text \<open>
  \<^verbatim>\<open>Endpoint.__asyncScan(gateway, gw, silent)\<close> against a network that answers with
  \<open>pr\<close>. \<open>gw\<close> is the tunnel handle, which only the SSH library uses. The handlers
  are tried in the order of the source: \<^verbatim>\<open>asyncssh.Error\<close>, then \<^verbatim>\<open>OSError\<close>, then
  \<^verbatim>\<open>asyncio.TimeoutError\<close>; an exception goes to the first whose class it belongs to,
  so the expiry of the deadline is tested against \<^verbatim>\<open>OSError\<close> first.
\<close>

definition asyncScan ::
    "db \<Rightarrow> Endpoint \<Rightarrow> Connection option \<Rightarrow> nat option \<Rightarrow> bool \<Rightarrow> probe \<Rightarrow>
       (error + bool) \<times> Endpoint \<times> db \<times> event list"
where
  "asyncScan d self gateway gw silent pr =
     (case result pr of
        Returned \<Rightarrow>
          asyncScan_reached d (foldl ScanSSHClient (self\<lparr>scanned := True\<rparr>) (callbacks pr))
            gateway silent
      | asyncssh_Error code msg \<Rightarrow>
          (if code = 14
           then asyncScan_reached d (foldl ScanSSHClient (self\<lparr>scanned := True\<rparr>) (callbacks pr))
                  gateway silent
           else (Inr False, foldl ScanSSHClient (self\<lparr>scanned := True\<rparr>) (callbacks pr), d,
                 [Printed (''asyncssh Error: '' @ msg)]))
      | OSError en \<Rightarrow>
          except_OSError d (foldl ScanSSHClient (self\<lparr>scanned := True\<rparr>) (callbacks pr)) silent
            (errno (OSError en))
      | TimeoutError \<Rightarrow>
          (if isinstance_OSError TimeoutError
           then except_OSError d (foldl ScanSSHClient (self\<lparr>scanned := True\<rparr>) (callbacks pr))
                  silent (errno TimeoutError)
           else except_TimeoutError d
                  (foldl ScanSSHClient (self\<lparr>scanned := True\<rparr>) (callbacks pr)) silent)
      | OtherError name \<Rightarrow>
          (Inl (Uncaught name), foldl ScanSSHClient (self\<lparr>scanned := True\<rparr>) (callbacks pr), d, []))"

section \<open>Gateways and route edges\<close>

text \<open>
  Modelled from the spec: \<^verbatim>\<open>Connection.find_one(gateway_to=...)\<close> is not in this module.
  It returns a Connection the registry knows to reach the Endpoint, and raises
  NoPathException when there is none.
\<close>

definition Connection_find_one :: "db \<Rightarrow> Endpoint \<Rightarrow> error + Connection option" where
  "Connection_find_one d gateway_to =
     (case map_of (gateways d) (ip gateway_to, port gateway_to) of
        None \<Rightarrow> Inl NoPathException
      | Some c \<Rightarrow> Inr (Some c))"

text \<open>
  Modelled from the spec: the \<^verbatim>\<open>Path\<close> class is not in this module. Constructing a
  Path looks the edge up and takes its id when it is stored; \<^verbatim>\<open>save\<close> stores the edge
  if it is absent and never duplicates it; \<^verbatim>\<open>delete\<close> removes it.
\<close>

record Path =
  path_src :: "nat option"
  path_dst :: "string \<times> nat"
  path_id :: "nat option"

definition Path_init :: "db \<Rightarrow> nat option \<Rightarrow> Endpoint \<Rightarrow> Path" where
  "Path_init d src dst =
     \<lparr>path_src = src, path_dst = (ip dst, port dst),
      path_id = map_option fst (List.find (\<lambda>row. snd row = (src, ip dst, port dst)) (paths d))\<rparr>"

definition Path_save :: "db \<Rightarrow> Path \<Rightarrow> db" where
  "Path_save d p =
     (if path_id p \<noteq> None then d
      else d\<lparr>paths := paths d @ [(next_id (map fst (paths d)), (path_src p, path_dst p))]\<rparr>)"

definition Path_delete :: "db \<Rightarrow> Path \<Rightarrow> db" where
  "Path_delete d p = d\<lparr>paths := filter (\<lambda>row. snd row \<noteq> (path_src p, path_dst p)) (paths d)\<rparr>"

text \<open>The \<^verbatim>\<open>gateway\<close> argument of \<^verbatim>\<open>scan\<close>: \<^verbatim>\<open>"auto"\<close>, \<^verbatim>\<open>None\<close> or a Connection.\<close>

datatype gateway_arg = Auto | NoGateway | Via Connection

text \<open>
  \<^verbatim>\<open>Endpoint.scan(gateway, silent)\<close>. \<open>initConnect\<close> is the gateway's method that opens
  the tunnel: it returns a handle or raises. An exception leaves \<^verbatim>\<open>scan\<close> at once;
  closing the tunnel afterwards changes nothing here. The result is the exception or
  the boolean, the Endpoint, the database and the effects.
\<close>

definition scan ::
    "db \<Rightarrow> Endpoint \<Rightarrow> gateway_arg \<Rightarrow> bool \<Rightarrow> (Connection \<Rightarrow> error + nat) \<Rightarrow> probe \<Rightarrow>
       (error + bool) \<times> Endpoint \<times> db \<times> event list"
where
  "scan d self gateway_in silent initConnect pr =
     (case (case gateway_in of
              Auto \<Rightarrow> Connection_find_one d self
            | NoGateway \<Rightarrow> Inr None
            | Via c \<Rightarrow> Inr (Some c)) of
        Inl exc \<Rightarrow> (Inl exc, self, d, [])
      | Inr gateway \<Rightarrow>
          (case (case gateway of
                   None \<Rightarrow> Inr None
                 | Some g \<Rightarrow> (case initConnect g of Inl exc \<Rightarrow> Inl exc | Inr h \<Rightarrow> Inr (Some h))) of
             Inl exc \<Rightarrow> (Inl exc, self, d, [])
           | Inr gw \<Rightarrow>
               (case asyncScan d self gateway gw silent pr of
                  (Inl exc, self', d', tr) \<Rightarrow> (Inl exc, self', d', tr)
                | (Inr done, self', d', tr) \<Rightarrow>
                    (case (case gateway of
                             None \<Rightarrow> Some None
                           | Some g \<Rightarrow>
                               (case host (endpoint g) of
                                  None \<Rightarrow> None
                                | Some h \<Rightarrow> Some (Some h))) of
                       None \<Rightarrow> (Inr done, self', d', tr)
                     | Some gwHost \<Rightarrow>
                         (if done then (Inr done, self', Path_save d' (Path_init d' gwHost self'), tr)
                          else if path_id (Path_init d' gwHost self') \<noteq> None
                          then (Inr done, self', Path_delete d' (Path_init d' gwHost self'), tr)
                          else (Inr done, self', d', tr))))))"

section \<open>Reading a result, and the conditions the properties need\<close>

text \<open>The four parts of what \<^verbatim>\<open>save\<close>, \<^verbatim>\<open>__asyncScan\<close> and \<^verbatim>\<open>scan\<close> leave behind.\<close>

definition ret :: "'a \<times> Endpoint \<times> db \<times> event list \<Rightarrow> 'a" where
  "ret x = fst x"

definition obj :: "'a \<times> Endpoint \<times> db \<times> event list \<Rightarrow> Endpoint" where
  "obj x = fst (snd x)"

definition store :: "'a \<times> Endpoint \<times> db \<times> event list \<Rightarrow> db" where
  "store x = fst (snd (snd x))"

definition effects :: "'a \<times> Endpoint \<times> db \<times> event list \<Rightarrow> event list" where
  "effects x = snd (snd (snd x))"

text \<open>
  Every stored row can be made into an object: its address passes the check, its
  port is digits, and its chain of \<^verbatim>\<open>found\<close> references fits the frame budget.
\<close>

definition loadable :: "(string \<Rightarrow> bool) \<Rightarrow> nat \<Rightarrow> db \<Rightarrow> bool" where
  "loadable ip_address depth d =
     list_all (\<lambda>r. \<not> isl (fst (Endpoint_init ip_address depth d (row_ip r) (row_port r))))
       (endpoints d)"

text \<open>
  The SSH library offers an authentication method only on a connection it has
  reported: the first callback that touches the Endpoint, if any, is
  \<^verbatim>\<open>connection_made\<close>.
\<close>

fun offers_after_connection :: "callback list \<Rightarrow> bool" where
  "offers_after_connection [] = True"
| "offers_after_connection (connection_made # cbs) = True"
| "offers_after_connection (public_key_auth_requested # cbs) = False"
| "offers_after_connection (password_auth_requested # cbs) = False"
| "offers_after_connection (kbdint_auth_requested # cbs) = False"
| "offers_after_connection (auth_banner_received # cbs) = offers_after_connection cbs"
| "offers_after_connection (auth_completed # cbs) = offers_after_connection cbs"

text \<open>
  What the table of route edges holds after one probe of the edge \<open>e\<close>: a probe that
  succeeded leaves the edge stored once (added with a fresh id if it was absent), a
  probe that failed leaves it absent; the other edges stay.
\<close>

definition route_edges_after :: "edge \<Rightarrow> bool \<Rightarrow> (nat \<times> edge) list \<Rightarrow> (nat \<times> edge) list" where
  "route_edges_after e done ps =
     (if done
      then (if e \<in> snd ` set ps then ps else ps @ [(next_id (map fst ps), e)])
      else filter (\<lambda>row. snd row \<noteq> e) ps)"

section \<open>Scenarios\<close>

text \<open>An address check for the scenarios: digits and dots.\<close>

definition ipv4_text :: "string \<Rightarrow> bool" where
  "ipv4_text s = (s \<noteq> [] \<and> list_all (\<lambda>c. is_digit c \<or> c = CHR ''.'') s)"

definition empty_db :: db where
  "empty_db = \<lparr>endpoints = [], hosts = [], paths = [], gateways = []\<rparr>"

text \<open>A gateway at distance 1 whose Endpoint belongs to Host 1, and one with no Host.\<close>

definition pivot :: Connection where
  "pivot = \<lparr>endpoint = (new_endpoint ''10.0.0.1'' ''22'')
              \<lparr>host := Some 1, eid := Some 1, scanned := True, reachable := Some True,
               distance := Some 1\<rparr>,
            conn_distance = 1\<rparr>"

definition hostless_pivot :: Connection where
  "hostless_pivot = \<lparr>endpoint = (new_endpoint ''10.0.0.2'' ''22'')
              \<lparr>eid := Some 2, scanned := True, reachable := Some True, distance := Some 0\<rparr>,
            conn_distance = 0\<rparr>"

definition open_tunnel :: "Connection \<Rightarrow> error + nat" where
  "open_tunnel c = Inr 0"

text \<open>The remote host never answers within the deadline.\<close>

definition no_answer :: probe where
  "no_answer = \<lparr>callbacks = [], result = TimeoutError\<rparr>"

text \<open>The server offers password and public-key authentication, then denies the login.\<close>

definition denied_login :: probe where
  "denied_login =
     \<lparr>callbacks = [connection_made, password_auth_requested, public_key_auth_requested],
      result = asyncssh_Error 14 ''Permission denied''\<rparr>"

text \<open>The server offers password authentication and then stalls until the deadline.\<close>

definition stalled_login :: probe where
  "stalled_login =
     \<lparr>callbacks = [connection_made, password_auth_requested], result = TimeoutError\<rparr>"

definition no_route :: probe where
  "no_route = \<lparr>callbacks = [], result = OSError (Some EHOSTUNREACH)\<rparr>"

definition net_unreachable :: probe where
  "net_unreachable = \<lparr>callbacks = [], result = OSError (Some ENETUNREACH)\<rparr>"

text \<open>The connection is made, then the key exchange fails.\<close>

definition key_exchange_failed :: probe where
  "key_exchange_failed =
     \<lparr>callbacks = [connection_made], result = asyncssh_Error 3 ''Key exchange failed''\<rparr>"

text \<open>The server offers public-key authentication only, then denies the login.\<close>

definition key_only_login :: probe where
  "key_only_login =
     \<lparr>callbacks = [connection_made, public_key_auth_requested],
      result = asyncssh_Error 14 ''Permission denied''\<rparr>"

definition two_rows :: db where
  "two_rows = \<lparr>endpoints =
      [\<lparr>row_id = 1, row_host = None, row_ip = ''10.0.0.5'', row_port = ''22'', row_scanned = True,
        row_reachable = Some True, row_distance = Some 0, row_auth = Some [''password''],
        row_scope = True, row_found = None\<rparr>,
       \<lparr>row_id = 2, row_host = None, row_ip = ''10.0.0.6'', row_port = ''2222'', row_scanned = False,
        row_reachable = None, row_distance = None, row_auth = None,
        row_scope = False, row_found = Some 1\<rparr>],
      hosts = [], paths = [], gateways = []\<rparr>"

text \<open>A workspace in which the direct edge to 10.0.0.5:22 is stored.\<close>

definition direct_edge_db :: db where
  "direct_edge_db = empty_db\<lparr>paths := [(1, None, ''10.0.0.5'', 22)]\<rparr>"

section \<open>Auxiliary facts\<close>

lemma Endpoint_init_key:
  "Endpoint_init V n d i p = (Inr e, tr) \<Longrightarrow> ip e = i \<and> port_str e = p"
  by (cases n) (auto simp: new_endpoint_def split: if_splits option.splits prod.splits sum.splits)

lemma append_endpoints_keys:
  "append_endpoints V n d rows = (Inr es, tr) \<Longrightarrow>
     map ip es = map row_ip rows \<and> map port_str es = map row_port rows"
proof (induction rows arbitrary: es tr)
  case Nil
  then show ?case by simp
next
  case (Cons r rows)
  then show ?case
    by (auto split: prod.splits sum.splits dest: Endpoint_init_key)
qed

lemma append_endpoints_returns:
  "list_all (\<lambda>r. \<not> isl (fst (Endpoint_init V n d (row_ip r) (row_port r)))) rows \<Longrightarrow>
     \<exists>es tr. append_endpoints V n d rows = (Inr es, tr)"
proof (induction rows)
  case Nil
  then show ?case by simp
next
  case (Cons r rows)
  then obtain es tr where rest: "append_endpoints V n d rows = (Inr es, tr)"
    by auto
  from Cons.prems have "\<not> isl (fst (Endpoint_init V n d (row_ip r) (row_port r)))"
    by simp
  then obtain e tr' where "Endpoint_init V n d (row_ip r) (row_port r) = (Inr e, tr')"
    by (metis isl_def prod.collapse sum.collapse(2))
  with rest show ?case by simp
qed

lemma list_all_filter: "list_all P xs \<Longrightarrow> list_all P (filter Q xs)"
  by (induction xs) auto

lemma foldl_ScanSSHClient_keeps:
  "distance (foldl ScanSSHClient e cbs) = distance e
   \<and> scanned (foldl ScanSSHClient e cbs) = scanned e
   \<and> eid (foldl ScanSSHClient e cbs) = eid e
   \<and> ip (foldl ScanSSHClient e cbs) = ip e
   \<and> port_str (foldl ScanSSHClient e cbs) = port_str e"
proof (induction cbs arbitrary: e)
  case Nil
  show ?case by simp
next
  case (Cons c cbs)
  show ?case by (cases c) (simp_all add: Cons.IH)
qed

lemma save_keeps:
  "save d e = (x, e', d', tr) \<Longrightarrow>
     distance e' = distance e \<and> reachable e' = reachable e \<and> auth e' = auth e
     \<and> scanned e' = scanned e \<and> ip e' = ip e \<and> port_str e' = port_str e"
  by (auto simp: save_def split: option.splits if_splits)

lemma asyncScan_reached_distance:
  "asyncScan_reached d e gateway silent = (r, e', d', tr) \<Longrightarrow>
     distance e' = Some (case gateway of None \<Rightarrow> 0 | Some g \<Rightarrow> conn_distance g + 1)"
  by (auto simp: asyncScan_reached_def split: prod.splits option.splits dest!: save_keeps)

lemma asyncScan_True_distance:
  "asyncScan d self gateway gw silent pr = (Inr True, self', d', tr) \<Longrightarrow>
     distance self' = Some (case gateway of None \<Rightarrow> 0 | Some g \<Rightarrow> conn_distance g + 1)"
  by (auto simp: asyncScan_def except_OSError_def
           split: conn_result.splits if_splits prod.splits option.splits
           dest: asyncScan_reached_distance)

lemma foldl_ScanSSHClient_reachable:
  "reachable (foldl ScanSSHClient e cbs) =
     (if connection_made \<in> set cbs then Some True else reachable e)"
proof (induction cbs arbitrary: e)
  case Nil
  show ?case by simp
next
  case (Cons c cbs)
  show ?case by (cases c) (simp_all add: Cons.IH)
qed

lemma collapse4: "x = (ret x, obj x, store x, effects x)"
  by (simp add: ret_def obj_def store_def effects_def)

lemma asyncScan_keeps_key:
  "asyncScan d self gateway gw silent pr = (r, self', d', tr) \<Longrightarrow>
     ip self' = ip self \<and> port_str self' = port_str self"
  by (auto simp: asyncScan_def asyncScan_reached_def except_OSError_def foldl_ScanSSHClient_keeps
           split: conn_result.splits if_splits prod.splits option.splits dest!: save_keeps)

lemma find_snd_None: "List.find (\<lambda>row. snd row = e) ps = None \<longleftrightarrow> e \<notin> snd ` set ps"
  by (induction ps) auto

lemma filter_absent: "e \<notin> snd ` set ps \<Longrightarrow> filter (\<lambda>row. snd row \<noteq> e) ps = ps"
  by (induction ps) auto

lemma asyncScan_keeps_paths:
  "asyncScan d self gateway gw silent pr = (r, self', d', tr) \<Longrightarrow> paths d' = paths d"
  by (auto simp: asyncScan_def asyncScan_reached_def except_OSError_def save_def
           split: conn_result.splits if_splits prod.splits option.splits)

lemma bookkeeping_paths:
  "paths (if done then Path_save d' (Path_init d' src self')
          else if path_id (Path_init d' src self') \<noteq> None
               then Path_delete d' (Path_init d' src self') else d')
     = route_edges_after (src, ip self', port self') done (paths d')"
  by (auto simp: Path_save_def Path_init_def Path_delete_def route_edges_after_def
        find_snd_None filter_absent)

lemma bookkeeping_endpoints:
  "endpoints (if done then Path_save d' (Path_init d' src self')
          else if path_id (Path_init d' src self') \<noteq> None
               then Path_delete d' (Path_init d' src self') else d')
     = endpoints d'"
  by (simp add: Path_save_def Path_delete_def)

lemma route_edges_after_distinct:
  "distinct (map snd ps) \<Longrightarrow> distinct (map snd (route_edges_after e done ps))"
  by (auto simp: route_edges_after_def distinct_map_filter)

lemma route_edges_after_member:
  "e \<in> snd ` set (route_edges_after e done ps) \<longleftrightarrow> done"
  by (auto simp: route_edges_after_def)

lemma route_edges_after_others:
  "e' \<noteq> e \<Longrightarrow> e' \<in> snd ` set (route_edges_after e done ps) \<longleftrightarrow> e' \<in> snd ` set ps"
  by (auto simp: route_edges_after_def)

lemma asyncScan_object:
  "asyncScan d self gateway gw silent pr = (r, self', d', tr) \<Longrightarrow>
     auth self' = auth (foldl ScanSSHClient (self\<lparr>scanned := True\<rparr>) (callbacks pr))
     \<and> reachable self' = (if connection_made \<in> set (callbacks pr) then Some True else reachable self)"
  by (auto simp: asyncScan_def asyncScan_reached_def except_OSError_def foldl_ScanSSHClient_reachable
           split: conn_result.splits if_splits prod.splits option.splits dest!: save_keeps)

lemma asyncScan_distance_cases:
  "asyncScan d self gateway gw silent pr = (r, self', d', tr) \<Longrightarrow>
     distance self' = distance self \<or> probe_succeeds (result pr)"
  by (auto simp: asyncScan_def except_OSError_def foldl_ScanSSHClient_keeps
           split: conn_result.splits if_splits)

lemma asyncScan_True_succeeds:
  "asyncScan d self gateway gw silent pr = (Inr True, self', d', tr) \<Longrightarrow>
     probe_succeeds (result pr)"
  by (auto simp: asyncScan_def except_OSError_def split: conn_result.splits if_splits)

lemma asyncScan_False_distance:
  "asyncScan d self gateway gw silent pr = (Inr False, self', d', tr) \<Longrightarrow>
     distance self' = distance self"
  by (auto simp: asyncScan_def asyncScan_reached_def except_OSError_def foldl_ScanSSHClient_keeps
           split: conn_result.splits if_splits prod.splits option.splits dest!: save_keeps)

lemma set_add_set: "set (set_add x xs) = insert x (set xs)"
  by (auto simp: set_add_def)

lemma foldl_ScanSSHClient_auth:
  "set (auth e) \<subseteq> set (auth (foldl ScanSSHClient e cbs))
   \<and> set (auth (foldl ScanSSHClient e cbs)) \<subseteq> set (auth e) \<union> {''privkey'', ''password'', ''kbdint''}"
proof (induction cbs arbitrary: e)
  case Nil
  show ?case by auto
next
  case (Cons c cbs)
  show ?case
    using Cons.IH [of "ScanSSHClient e c"] by (cases c) (auto simp: set_add_set)
qed

lemma foldl_ScanSSHClient_no_offer:
  "offers_after_connection cbs \<Longrightarrow> connection_made \<notin> set cbs \<Longrightarrow>
     auth (foldl ScanSSHClient e cbs) = auth e"
proof (induction cbs arbitrary: e)
  case Nil
  show ?case by simp
next
  case (Cons c cbs)
  then show ?case by (cases c) simp_all
qed

section \<open>Properties of the lookups\<close>

text \<open>
  C10. \<^verbatim>\<open>find_one\<close> given an "ip:port" string with no colon, so that the port part
  of the partition is empty, raises ValueError rather than returning none; called with
  \<^verbatim>\<open>endpoint_id = 0\<close>, or with neither argument, it returns none and no statement is
  executed.
\<close>

theorem find_one_edge_cases:
  "(CHR '':'' \<notin> set s \<longrightarrow> find_one ip_address (Suc depth) d None (Some s) = (Inl ValueError, []))
   \<and> find_one ip_address (Suc depth) d (Some 0) ip_port = (Inr None, [])
   \<and> find_one ip_address (Suc depth) d None None = (Inr None, [])"
  by (simp add: str_partition_def)

theorem find_one_edge_cases_witness:
  "CHR '':'' \<notin> set ''10.0.0.5''
   \<and> find_one ipv4_text (Suc 2) two_rows None (Some ''10.0.0.5'') = (Inl ValueError, [])
   \<and> find_one ipv4_text (Suc 2) two_rows (Some 0) (Some ''10.0.0.5:22'') = (Inr None, [])
   \<and> find_one ipv4_text (Suc 2) two_rows None None = (Inr None, [])"
  using find_one_edge_cases [of "''10.0.0.5''" ipv4_text 2 two_rows "Some ''10.0.0.5:22''"]
  by simp

text \<open>
  C9. \<^verbatim>\<open>find_all\<close> called with a \<^verbatim>\<open>found\<close> Endpoint does not return the Endpoints
  discovered on it: whatever the scope filter and the database, it raises NameError on
  the unbound name \<^verbatim>\<open>endpoint\<close> before any statement is executed.
\<close>

theorem find_all_found_raises:
  "find_all ip_address depth d scope_arg (Some e) = (Inl (NameError ''endpoint''), [])"
  by (simp add: find_all_def split: option.splits)

text \<open>
  C6. The allow-list of \<^verbatim>\<open>search\<close> is ip, port and auth (the attribute the
  specification calls authMethods). For a field outside it \<^verbatim>\<open>search\<close> raises ValueError
  with nothing printed and no statement executed. For a field in it the query is
  executed and, when \<^verbatim>\<open>search\<close> returns, the Endpoints returned are those of the rows
  whose column matches \<^verbatim>\<open>%val%\<close> (restricted to rows in scope unless \<^verbatim>\<open>show_all\<close>), in
  order; it does return when every stored row can be made into an object.
\<close>

theorem search_allow_list:
  "(field \<notin> {''ip'', ''port'', ''auth''} \<longrightarrow>
      search V n d field val show_all = (Inl ValueError, []))
   \<and> (field \<in> {''ip'', ''port'', ''auth''} \<longrightarrow>
        (\<forall>es tr. search V n d field val show_all = (Inr es, tr) \<longrightarrow>
           executed tr \<noteq> []
           \<and> map ip es = map row_ip
               (filter (\<lambda>r. (show_all \<or> row_scope r) \<and> like_column field (''%'' @ val @ ''%'') r)
                  (endpoints d))
           \<and> map port_str es = map row_port
               (filter (\<lambda>r. (show_all \<or> row_scope r) \<and> like_column field (''%'' @ val @ ''%'') r)
                  (endpoints d)))
        \<and> (loadable V n d \<longrightarrow> (\<exists>es tr. search V n d field val show_all = (Inr es, tr))))"
proof (intro conjI impI allI)
  assume "field \<notin> {''ip'', ''port'', ''auth''}"
  then show "search V n d field val show_all = (Inl ValueError, [])"
    by (simp add: search_def search_fields_def)
next
  fix es tr
  assume f: "field \<in> {''ip'', ''port'', ''auth''}"
    and s: "search V n d field val show_all = (Inr es, tr)"
  from f have m: "field \<in> set search_fields" by (simp add: search_fields_def)
  from s m show "executed tr \<noteq> []"
    by (auto simp: search_def split: if_splits prod.splits)
  from s m show "map ip es = map row_ip
               (filter (\<lambda>r. (show_all \<or> row_scope r) \<and> like_column field (''%'' @ val @ ''%'') r)
                  (endpoints d))"
    by (cases show_all) (auto simp: search_def split: prod.splits dest!: append_endpoints_keys)
  from s m show "map port_str es = map row_port
               (filter (\<lambda>r. (show_all \<or> row_scope r) \<and> like_column field (''%'' @ val @ ''%'') r)
                  (endpoints d))"
    by (cases show_all) (auto simp: search_def split: prod.splits dest!: append_endpoints_keys)
next
  assume f: "field \<in> {''ip'', ''port'', ''auth''}" and l: "loadable V n d"
  from f have m: "field \<in> set search_fields" by (simp add: search_fields_def)
  from l have a: "\<And>Q. \<exists>es tr. append_endpoints V n d (filter Q (endpoints d)) = (Inr es, tr)"
    unfolding loadable_def by (intro append_endpoints_returns list_all_filter)
  show "\<exists>es tr. search V n d field val show_all = (Inr es, tr)"
  proof (cases show_all)
    case True
    from a [of "like_column field (''%'' @ val @ ''%'')"] m True show ?thesis
      by (auto simp: search_def)
  next
    case False
    from a [of "\<lambda>r. row_scope r \<and> like_column field (''%'' @ val @ ''%'') r"] m False show ?thesis
      by (auto simp: search_def)
  qed
qed

theorem search_allow_list_witness:
  "''distance'' \<notin> {''ip'', ''port'', ''auth''}
   \<and> search ipv4_text 4 two_rows ''distance'' ''1'' False = (Inl ValueError, [])
   \<and> ''ip'' \<in> {''ip'', ''port'', ''auth''}
   \<and> loadable ipv4_text 4 two_rows
   \<and> (\<exists>es tr. search ipv4_text 4 two_rows ''ip'' ''0.0'' False = (Inr es, tr)
        \<and> map ip es = [''10.0.0.5''] \<and> map port_str es = [''22''])"
proof -
  have l: "loadable ipv4_text 4 two_rows"
    by code_simp
  have m: "map row_ip (filter (\<lambda>r. (False \<or> row_scope r) \<and> like_column ''ip'' (''%'' @ ''0.0'' @ ''%'') r)
                  (endpoints two_rows)) = [''10.0.0.5'']"
    by code_simp
  have p: "map row_port (filter (\<lambda>r. (False \<or> row_scope r) \<and> like_column ''ip'' (''%'' @ ''0.0'' @ ''%'') r)
                  (endpoints two_rows)) = [''22'']"
    by code_simp
  show ?thesis
    using search_allow_list [of "''distance''" ipv4_text 4 two_rows "''1''" False]
      search_allow_list [of "''ip''" ipv4_text 4 two_rows "''0.0''" False] l m p
    by auto
qed

section \<open>Properties of the probe\<close>

text \<open>
  C2. A probe that succeeds leaves distance 0 when no gateway was used and the
  gateway's distance plus one when a gateway was used, both for \<^verbatim>\<open>__asyncScan\<close> and for
  \<^verbatim>\<open>scan\<close> called with no gateway or with a given Connection.
\<close>

theorem success_sets_distance:
  "(asyncScan d self gateway gw silent pr = (Inr True, self', d', tr) \<longrightarrow>
      distance self' = Some (case gateway of None \<Rightarrow> 0 | Some g \<Rightarrow> conn_distance g + 1))
   \<and> (scan d self NoGateway silent initConnect pr = (Inr True, self', d', tr) \<longrightarrow>
        distance self' = Some 0)
   \<and> (scan d self (Via g) silent initConnect pr = (Inr True, self', d', tr) \<longrightarrow>
        distance self' = Some (conn_distance g + 1))"
proof (intro conjI impI)
  assume "asyncScan d self gateway gw silent pr = (Inr True, self', d', tr)"
  then show "distance self' = Some (case gateway of None \<Rightarrow> 0 | Some g \<Rightarrow> conn_distance g + 1)"
    by (rule asyncScan_True_distance)
next
  assume "scan d self NoGateway silent initConnect pr = (Inr True, self', d', tr)"
  then show "distance self' = Some 0"
    by (auto simp: scan_def split: prod.splits sum.splits if_splits
             dest: asyncScan_True_distance)
next
  assume "scan d self (Via g) silent initConnect pr = (Inr True, self', d', tr)"
  then show "distance self' = Some (conn_distance g + 1)"
    by (auto simp: scan_def split: prod.splits sum.splits if_splits option.splits
             dest: asyncScan_True_distance)
qed

theorem success_sets_distance_witness:
  "ret (scan empty_db (new_endpoint ''10.0.0.6'' ''22'') (Via pivot) False open_tunnel denied_login) = Inr True
   \<and> conn_distance pivot = 1
   \<and> distance (obj (scan empty_db (new_endpoint ''10.0.0.6'' ''22'') (Via pivot) False open_tunnel denied_login)) = Some 2"
proof -
  let ?x = "scan empty_db (new_endpoint ''10.0.0.6'' ''22'') (Via pivot) False open_tunnel denied_login"
  have r: "ret ?x = Inr True"
    by code_simp
  have c: "conn_distance pivot = 1"
    by (simp add: pivot_def)
  have "?x = (Inr True, obj ?x, store ?x, effects ?x)"
    using collapse4 [of ?x] r by simp
  with success_sets_distance [of empty_db "new_endpoint ''10.0.0.6'' ''22''" _ _ False denied_login
      "obj ?x" "store ?x" "effects ?x" open_tunnel pivot]
  have "distance (obj ?x) = Some (conn_distance pivot + 1)"
    by blast
  with r c show ?thesis by simp
qed

text \<open>
  C8, as the code has it. When the connection attempt ends in an OSError and no
  connection was made, the probe returns False, executes no statement and leaves the
  database as it was; on the object only \<^verbatim>\<open>scanned\<close> changes, so \<^verbatim>\<open>reachable\<close> stays what
  it was (unknown for an Endpoint never reached). The notice "No route to host" is
  printed, unless silent, when the errno is EHOSTUNREACH, and only then: any other
  errno, such as "network is unreachable", prints nothing.
\<close>

theorem os_error_leaves_record:
  assumes "result pr = OSError en"
    and "connection_made \<notin> set (callbacks pr)"
  shows "\<exists>self'. asyncScan d self gateway gw silent pr =
            (Inr False, self', d,
             if en = Some EHOSTUNREACH \<and> \<not> silent then [Printed ''No route to host''] else [])
          \<and> scanned self' \<and> reachable self' = reachable self
          \<and> distance self' = distance self \<and> eid self' = eid self"
  using assms
  by (simp add: asyncScan_def except_OSError_def foldl_ScanSSHClient_reachable
        foldl_ScanSSHClient_keeps)

theorem os_error_leaves_record_witness:
  "result no_route = OSError (Some EHOSTUNREACH) \<and> connection_made \<notin> set (callbacks no_route)
   \<and> asyncScan two_rows (new_endpoint ''10.0.0.9'' ''22'') None None False no_route =
       (Inr False, (new_endpoint ''10.0.0.9'' ''22'')\<lparr>scanned := True\<rparr>, two_rows,
        [Printed ''No route to host''])
   \<and> asyncScan two_rows (new_endpoint ''10.0.0.9'' ''22'') None None True no_route =
       (Inr False, (new_endpoint ''10.0.0.9'' ''22'')\<lparr>scanned := True\<rparr>, two_rows, [])
   \<and> reachable ((new_endpoint ''10.0.0.9'' ''22'')\<lparr>scanned := True\<rparr>) = None"
  using os_error_leaves_record [of no_route "Some EHOSTUNREACH" two_rows
      "new_endpoint ''10.0.0.9'' ''22''" None None False]
    os_error_leaves_record [of no_route "Some EHOSTUNREACH" two_rows
      "new_endpoint ''10.0.0.9'' ''22''" None None True]
  by (auto simp: no_route_def new_endpoint_def asyncScan_def except_OSError_def)

text \<open>
  C8 as stated fails: when the network is unreachable (OSError with errno
  ENETUNREACH) and the caller is not silent, the probe returns False and prints no
  notice.
\<close>

theorem net_unreachable_no_notice:
  "result net_unreachable = OSError (Some ENETUNREACH)
   \<and> asyncScan two_rows (new_endpoint ''10.0.0.9'' ''22'') None None False net_unreachable =
       (Inr False, (new_endpoint ''10.0.0.9'' ''22'')\<lparr>scanned := True\<rparr>, two_rows, [])
   \<and> printed (effects
        (asyncScan two_rows (new_endpoint ''10.0.0.9'' ''22'') None None False net_unreachable)) = []"
  by (simp add: net_unreachable_def asyncScan_def except_OSError_def ENETUNREACH_def
        EHOSTUNREACH_def effects_def)

section \<open>Properties of gateway resolution\<close>

text \<open>
  C5. In automatic mode, when the registry knows no Connection to the Endpoint,
  \<^verbatim>\<open>scan\<close> ends with NoPathException before anything is probed, saved or printed;
  the exception is a result of its own, and a return of False in automatic mode
  happens only when a gateway was found.
\<close>

theorem no_path_propagates:
  "(map_of (gateways d) (ip self, port self) = None \<longrightarrow>
      scan d self Auto silent initConnect pr = (Inl NoPathException, self, d, []))
   \<and> (ret (scan d self Auto silent initConnect pr) = Inr False \<longrightarrow>
        map_of (gateways d) (ip self, port self) \<noteq> None)"
  by (auto simp: scan_def Connection_find_one_def ret_def split: option.splits)

theorem no_path_propagates_witness:
  "map_of (gateways empty_db) (ip (new_endpoint ''10.0.0.5'' ''22''), port (new_endpoint ''10.0.0.5'' ''22'')) = None
   \<and> scan empty_db (new_endpoint ''10.0.0.5'' ''22'') Auto False open_tunnel denied_login
       = (Inl NoPathException, new_endpoint ''10.0.0.5'' ''22'', empty_db, [])
   \<and> ret (scan (empty_db\<lparr>gateways := [((''10.0.0.5'', 22), pivot)]\<rparr>) (new_endpoint ''10.0.0.5'' ''22'') Auto False open_tunnel no_answer) = Inr False
   \<and> map_of (gateways (empty_db\<lparr>gateways := [((''10.0.0.5'', 22), pivot)]\<rparr>)) (ip (new_endpoint ''10.0.0.5'' ''22''), port (new_endpoint ''10.0.0.5'' ''22'')) \<noteq> None"
proof -
  have a: "map_of (gateways empty_db) (ip (new_endpoint ''10.0.0.5'' ''22''), port (new_endpoint ''10.0.0.5'' ''22'')) = None"
    by (simp add: empty_db_def)
  have b: "ret (scan (empty_db\<lparr>gateways := [((''10.0.0.5'', 22), pivot)]\<rparr>) (new_endpoint ''10.0.0.5'' ''22'') Auto False open_tunnel no_answer) = Inr False"
    by code_simp
  show ?thesis
    using a b no_path_propagates [of empty_db "new_endpoint ''10.0.0.5'' ''22''" False open_tunnel denied_login]
      no_path_propagates [of "empty_db\<lparr>gateways := [((''10.0.0.5'', 22), pivot)]\<rparr>" "new_endpoint ''10.0.0.5'' ''22''" False open_tunnel no_answer]
    by blast
qed

section \<open>Timeouts and the state a probe leaves\<close>

text \<open>
  C4 does not hold of the code. The expiry of the deadline is an OSError, so the
  handler \<^verbatim>\<open>except OSError\<close> takes it before \<^verbatim>\<open>except asyncio.TimeoutError\<close> is tried:
  whatever the callbacks, the probe returns False with \<^verbatim>\<open>reachable\<close> not marked
  unreachable, nothing saved and nothing printed. For the Endpoint 10.0.0.5:22 probed
  directly against a host that never answers, \<^verbatim>\<open>scan\<close> returns False and leaves
  \<^verbatim>\<open>reachable\<close> unknown and the database empty.
\<close>

theorem timeout_caught_as_OSError:
  "asyncScan d self gateway gw silent \<lparr>callbacks = cbs, result = TimeoutError\<rparr> =
     (Inr False, foldl ScanSSHClient (self\<lparr>scanned := True\<rparr>) cbs, d, [])
   \<and> scan empty_db (new_endpoint ''10.0.0.5'' ''22'') NoGateway False open_tunnel no_answer =
       (Inr False, (new_endpoint ''10.0.0.5'' ''22'')\<lparr>scanned := True\<rparr>, empty_db, [])
   \<and> reachable ((new_endpoint ''10.0.0.5'' ''22'')\<lparr>scanned := True\<rparr>) = None"
  by (simp add: asyncScan_def except_OSError_def scan_def no_answer_def empty_db_def
        Path_init_def new_endpoint_def)

text \<open>
  C3, as the code has it. Given that the SSH library reports the connection in every
  probe that succeeds, a probe keeps this: \<^verbatim>\<open>distance\<close> is set only if \<^verbatim>\<open>reachable\<close> is
  True, so no probe leaves \<^verbatim>\<open>distance\<close> set while the Endpoint is unreachable or
  unknown. Right after a probe that returns True, \<^verbatim>\<open>reachable\<close> is True and
  \<^verbatim>\<open>distance\<close> is set; a probe that returns False leaves \<^verbatim>\<open>distance\<close> as it was. The
  converse is not kept: \<^verbatim>\<open>reachable\<close> can be True with \<^verbatim>\<open>distance\<close> unset.
\<close>

theorem distance_only_if_reachable:
  assumes "distance self \<noteq> None \<longrightarrow> reachable self = Some True"
    and "probe_succeeds (result pr) \<longrightarrow> connection_made \<in> set (callbacks pr)"
    and "asyncScan d self gateway gw silent pr = (r, self', d', tr)"
  shows "(distance self' \<noteq> None \<longrightarrow> reachable self' = Some True)
         \<and> (r = Inr True \<longrightarrow> reachable self' = Some True \<and> distance self' \<noteq> None)
         \<and> (r = Inr False \<longrightarrow> distance self' = distance self)"
proof (intro conjI impI)
  have o: "reachable self' =
             (if connection_made \<in> set (callbacks pr) then Some True else reachable self)"
    using assms(3) by (simp add: asyncScan_object)
  {
    assume n: "distance self' \<noteq> None"
    from assms(3) have "distance self' = distance self \<or> probe_succeeds (result pr)"
      by (rule asyncScan_distance_cases)
    then show "reachable self' = Some True"
    proof
      assume "distance self' = distance self"
      with n assms(1) have "reachable self = Some True" by simp
      with o show ?thesis by simp
    next
      assume "probe_succeeds (result pr)"
      with assms(2) o show ?thesis by simp
    qed
  }
  {
    assume t: "r = Inr True"
    with assms(3) have "probe_succeeds (result pr)"
      by (auto dest: asyncScan_True_succeeds)
    with assms(2) o show "reachable self' = Some True" by simp
    from t assms(3) show "distance self' \<noteq> None"
      by (auto dest: asyncScan_True_distance)
  }
  {
    assume "r = Inr False"
    with assms(3) show "distance self' = distance self"
      by (auto dest: asyncScan_False_distance)
  }
qed

theorem distance_only_if_reachable_witness:
  "distance (new_endpoint ''10.0.0.6'' ''22'') = None
   \<and> probe_succeeds (result denied_login) \<and> connection_made \<in> set (callbacks denied_login)
   \<and> ret (asyncScan empty_db (new_endpoint ''10.0.0.6'' ''22'') (Some pivot) (Some 0) False denied_login) = Inr True
   \<and> reachable (obj (asyncScan empty_db (new_endpoint ''10.0.0.6'' ''22'') (Some pivot) (Some 0) False denied_login)) = Some True
   \<and> distance (obj (asyncScan empty_db (new_endpoint ''10.0.0.6'' ''22'') (Some pivot) (Some 0) False denied_login)) \<noteq> None"
proof -
  let ?x = "asyncScan empty_db (new_endpoint ''10.0.0.6'' ''22'') (Some pivot) (Some 0) False denied_login"
  have h0: "distance (new_endpoint ''10.0.0.6'' ''22'') = None"
    by (simp add: new_endpoint_def)
  then have h1: "distance (new_endpoint ''10.0.0.6'' ''22'') \<noteq> None \<longrightarrow>
                   reachable (new_endpoint ''10.0.0.6'' ''22'') = Some True"
    by simp
  have s: "probe_succeeds (result denied_login)" and c: "connection_made \<in> set (callbacks denied_login)"
    by (simp_all add: denied_login_def)
  then have h2: "probe_succeeds (result denied_login) \<longrightarrow> connection_made \<in> set (callbacks denied_login)"
    by simp
  have r: "ret ?x = Inr True"
    by code_simp
  have x: "?x = (Inr True, obj ?x, store ?x, effects ?x)"
    using collapse4 [of ?x] r by simp
  show ?thesis
    using distance_only_if_reachable [OF h1 h2 x] h0 s c r by blast
qed

text \<open>
  C3 as stated fails: a probe in which the connection is made and the key exchange
  then fails returns False and leaves \<^verbatim>\<open>reachable\<close> True with \<^verbatim>\<open>distance\<close> unset; a
  \<^verbatim>\<open>save\<close> of that Endpoint stores the row so.
\<close>

theorem reachable_without_distance:
  "ret (scan empty_db (new_endpoint ''10.0.0.5'' ''22'') NoGateway True open_tunnel key_exchange_failed)
     = Inr False
   \<and> reachable (obj (scan empty_db (new_endpoint ''10.0.0.5'' ''22'') NoGateway True open_tunnel
        key_exchange_failed)) = Some True
   \<and> distance (obj (scan empty_db (new_endpoint ''10.0.0.5'' ''22'') NoGateway True open_tunnel
        key_exchange_failed)) = None
   \<and> map row_reachable (endpoints (store (save
        (store (scan empty_db (new_endpoint ''10.0.0.5'' ''22'') NoGateway True open_tunnel
           key_exchange_failed))
        (obj (scan empty_db (new_endpoint ''10.0.0.5'' ''22'') NoGateway True open_tunnel
           key_exchange_failed))))) = [Some True]
   \<and> map row_distance (endpoints (store (save
        (store (scan empty_db (new_endpoint ''10.0.0.5'' ''22'') NoGateway True open_tunnel
           key_exchange_failed))
        (obj (scan empty_db (new_endpoint ''10.0.0.5'' ''22'') NoGateway True open_tunnel
           key_exchange_failed))))) = [None]"
  by code_simp

text \<open>
  C7, as the code has it. Given that the SSH library offers a method only on a
  connection it has reported, a probe keeps this: \<^verbatim>\<open>auth\<close> is non-empty only if
  \<^verbatim>\<open>reachable\<close> is True. A probe never removes a method and adds only privkey, password
  or kbdint, so the methods offered before the deadline expired stay in \<^verbatim>\<open>auth\<close>.
\<close>

theorem auth_only_if_reachable:
  assumes "auth self \<noteq> [] \<longrightarrow> reachable self = Some True"
    and "offers_after_connection (callbacks pr)"
    and "asyncScan d self gateway gw silent pr = (r, self', d', tr)"
  shows "(auth self' \<noteq> [] \<longrightarrow> reachable self' = Some True)
         \<and> set (auth self) \<subseteq> set (auth self')
         \<and> set (auth self') \<subseteq> set (auth self) \<union> {''privkey'', ''password'', ''kbdint''}"
proof -
  let ?e = "foldl ScanSSHClient (self\<lparr>scanned := True\<rparr>) (callbacks pr)"
  from assms(3) have a: "auth self' = auth ?e"
    and b: "reachable self' =
              (if connection_made \<in> set (callbacks pr) then Some True else reachable self)"
    by (simp_all add: asyncScan_object)
  have i: "auth ?e \<noteq> [] \<longrightarrow> reachable self' = Some True"
  proof (cases "connection_made \<in> set (callbacks pr)")
    case True
    with b show ?thesis by simp
  next
    case False
    with assms(2) have "auth ?e = auth self"
      by (simp add: foldl_ScanSSHClient_no_offer)
    with False assms(1) b show ?thesis
      by simp
  qed
  have s: "set (auth self) \<subseteq> set (auth ?e)
           \<and> set (auth ?e) \<subseteq> set (auth self) \<union> {''privkey'', ''password'', ''kbdint''}"
    using foldl_ScanSSHClient_auth [of "self\<lparr>scanned := True\<rparr>" "callbacks pr"] by simp
  from a i s show ?thesis by auto
qed

theorem auth_only_if_reachable_witness:
  "auth (new_endpoint ''10.0.0.6'' ''22'') = []
   \<and> offers_after_connection (callbacks stalled_login)
   \<and> auth (obj (asyncScan empty_db (new_endpoint ''10.0.0.6'' ''22'') None None True stalled_login)) \<noteq> []
   \<and> reachable (obj (asyncScan empty_db (new_endpoint ''10.0.0.6'' ''22'') None None True stalled_login))
       = Some True"
proof -
  let ?x = "asyncScan empty_db (new_endpoint ''10.0.0.6'' ''22'') None None True stalled_login"
  have h0: "auth (new_endpoint ''10.0.0.6'' ''22'') = []"
    by (simp add: new_endpoint_def)
  then have h1: "auth (new_endpoint ''10.0.0.6'' ''22'') \<noteq> [] \<longrightarrow>
                   reachable (new_endpoint ''10.0.0.6'' ''22'') = Some True"
    by simp
  have h2: "offers_after_connection (callbacks stalled_login)"
    by (simp add: stalled_login_def)
  have n: "auth (obj ?x) \<noteq> []"
    by code_simp
  show ?thesis
    using auth_only_if_reachable [OF h1 h2 collapse4 [of ?x]] h0 h2 n by blast
qed

text \<open>
  C7 as stated fails in its last part: when the server offers password authentication
  and then stalls until the deadline, the probe returns False and the Endpoint keeps
  the offered method; the next probe that succeeds, in which only public-key
  authentication is offered, saves it in the row.
\<close>

theorem offered_before_timeout_is_kept:
  "ret (scan empty_db (new_endpoint ''10.0.0.6'' ''22'') NoGateway True open_tunnel stalled_login)
     = Inr False
   \<and> auth (obj (scan empty_db (new_endpoint ''10.0.0.6'' ''22'') NoGateway True open_tunnel
        stalled_login)) = [''password'']
   \<and> callbacks key_only_login = [connection_made, public_key_auth_requested]
   \<and> ret (scan
        (store (scan empty_db (new_endpoint ''10.0.0.6'' ''22'') NoGateway True open_tunnel stalled_login))
        (obj (scan empty_db (new_endpoint ''10.0.0.6'' ''22'') NoGateway True open_tunnel stalled_login))
        NoGateway True open_tunnel key_only_login) = Inr True
   \<and> map row_auth (endpoints (store (scan
        (store (scan empty_db (new_endpoint ''10.0.0.6'' ''22'') NoGateway True open_tunnel stalled_login))
        (obj (scan empty_db (new_endpoint ''10.0.0.6'' ''22'') NoGateway True open_tunnel stalled_login))
        NoGateway True open_tunnel key_only_login))) = [Some [''password'', ''privkey'']]"
  by code_simp

section \<open>Properties of the route edges\<close>

text \<open>
  C1, as the code has it. After a probe through a gateway whose Endpoint has a known
  Host, the edge from that Host to the target is stored exactly when the probe
  succeeded: added if absent, never duplicated, removed if it was stored and the probe
  failed; the other edges and the Endpoint rows are untouched. When the gateway's
  Endpoint has no Host, \<^verbatim>\<open>scan\<close> returns what the probe returned and does nothing else.
  When no gateway was used, the same bookkeeping is done for the edge from no Host to
  the target.
\<close>

theorem route_edge_bookkeeping:
  "(host (endpoint g) = Some h \<and> initConnect g = Inr t
      \<and> asyncScan d self (Some g) (Some t) silent pr = (Inr done, self', d', tr) \<longrightarrow>
      (\<exists>d''. scan d self (Via g) silent initConnect pr = (Inr done, self', d'', tr)
         \<and> endpoints d'' = endpoints d'
         \<and> paths d'' = route_edges_after (Some h, ip self, port self) done (paths d)
         \<and> ((Some h, ip self, port self) \<in> snd ` set (paths d'') \<longleftrightarrow> done)
         \<and> (distinct (map snd (paths d)) \<longrightarrow> distinct (map snd (paths d'')))))
   \<and> (host (endpoint g) = None \<and> initConnect g = Inr t \<longrightarrow>
        scan d self (Via g) silent initConnect pr = asyncScan d self (Some g) (Some t) silent pr)
   \<and> (asyncScan d self None None silent pr = (Inr done, self', d', tr) \<longrightarrow>
        (\<exists>d''. scan d self NoGateway silent initConnect pr = (Inr done, self', d'', tr)
           \<and> endpoints d'' = endpoints d'
           \<and> paths d'' = route_edges_after (None, ip self, port self) done (paths d)
           \<and> ((None, ip self, port self) \<in> snd ` set (paths d'') \<longleftrightarrow> done)
           \<and> (distinct (map snd (paths d)) \<longrightarrow> distinct (map snd (paths d'')))))"
proof (intro conjI impI)
  assume a: "host (endpoint g) = Some h \<and> initConnect g = Inr t
      \<and> asyncScan d self (Some g) (Some t) silent pr = (Inr done, self', d', tr)"
  let ?d = "if done then Path_save d' (Path_init d' (Some h) self')
            else if path_id (Path_init d' (Some h) self') \<noteq> None
                 then Path_delete d' (Path_init d' (Some h) self') else d'"
  from a have k: "ip self' = ip self" "port self' = port self" "paths d' = paths d"
    by (auto simp: port_def dest: asyncScan_keeps_key asyncScan_keeps_paths)
  from a have s: "scan d self (Via g) silent initConnect pr = (Inr done, self', ?d, tr)"
    by (simp add: scan_def)
  have p: "paths ?d = route_edges_after (Some h, ip self, port self) done (paths d)"
    using bookkeeping_paths [of "done" d' "Some h" self'] k by simp
  have e: "endpoints ?d = endpoints d'"
    by (rule bookkeeping_endpoints)
  show "\<exists>d''. scan d self (Via g) silent initConnect pr = (Inr done, self', d'', tr)
         \<and> endpoints d'' = endpoints d'
         \<and> paths d'' = route_edges_after (Some h, ip self, port self) done (paths d)
         \<and> ((Some h, ip self, port self) \<in> snd ` set (paths d'') \<longleftrightarrow> done)
         \<and> (distinct (map snd (paths d)) \<longrightarrow> distinct (map snd (paths d'')))"
    using s p e route_edges_after_member route_edges_after_distinct by metis
next
  assume "host (endpoint g) = None \<and> initConnect g = Inr t"
  then show "scan d self (Via g) silent initConnect pr = asyncScan d self (Some g) (Some t) silent pr"
    by (auto simp: scan_def split: prod.splits sum.splits)
next
  assume a: "asyncScan d self None None silent pr = (Inr done, self', d', tr)"
  let ?d = "if done then Path_save d' (Path_init d' None self')
            else if path_id (Path_init d' None self') \<noteq> None
                 then Path_delete d' (Path_init d' None self') else d'"
  from a have k: "ip self' = ip self" "port self' = port self" "paths d' = paths d"
    by (auto simp: port_def dest: asyncScan_keeps_key asyncScan_keeps_paths)
  from a have s: "scan d self NoGateway silent initConnect pr = (Inr done, self', ?d, tr)"
    by (simp add: scan_def)
  have p: "paths ?d = route_edges_after (None, ip self, port self) done (paths d)"
    using bookkeeping_paths [of "done" d' None self'] k by simp
  have e: "endpoints ?d = endpoints d'"
    by (rule bookkeeping_endpoints)
  show "\<exists>d''. scan d self NoGateway silent initConnect pr = (Inr done, self', d'', tr)
           \<and> endpoints d'' = endpoints d'
           \<and> paths d'' = route_edges_after (None, ip self, port self) done (paths d)
           \<and> ((None, ip self, port self) \<in> snd ` set (paths d'') \<longleftrightarrow> done)
           \<and> (distinct (map snd (paths d)) \<longrightarrow> distinct (map snd (paths d'')))"
    using s p e route_edges_after_member route_edges_after_distinct by metis
qed

theorem route_edge_bookkeeping_witness:
  "host (endpoint pivot) = Some 1 \<and> open_tunnel pivot = Inr 0
   \<and> ret (asyncScan empty_db (new_endpoint ''10.0.0.6'' ''22'') (Some pivot) (Some 0) False denied_login) = Inr True
   \<and> ret (scan empty_db (new_endpoint ''10.0.0.6'' ''22'') (Via pivot) False open_tunnel denied_login) = Inr True
   \<and> paths (store (scan empty_db (new_endpoint ''10.0.0.6'' ''22'') (Via pivot) False open_tunnel denied_login))
       = [(1, Some 1, ''10.0.0.6'', 22)]
   \<and> host (endpoint hostless_pivot) = None \<and> open_tunnel hostless_pivot = Inr 0
   \<and> scan empty_db (new_endpoint ''10.0.0.6'' ''22'') (Via hostless_pivot) False open_tunnel denied_login
       = asyncScan empty_db (new_endpoint ''10.0.0.6'' ''22'') (Some hostless_pivot) (Some 0) False denied_login
   \<and> ret (asyncScan direct_edge_db (new_endpoint ''10.0.0.5'' ''22'') None None False no_answer) = Inr False
   \<and> paths direct_edge_db = [(1, None, ''10.0.0.5'', 22)]
   \<and> paths (store (scan direct_edge_db (new_endpoint ''10.0.0.5'' ''22'') NoGateway False open_tunnel no_answer)) = []"
proof -
  let ?e = "new_endpoint ''10.0.0.6'' ''22''"
  let ?f = "new_endpoint ''10.0.0.5'' ''22''"
  let ?x = "asyncScan empty_db ?e (Some pivot) (Some 0) False denied_login"
  let ?y = "asyncScan direct_edge_db ?f None None False no_answer"
  have h: "host (endpoint pivot) = Some 1" "open_tunnel pivot = Inr 0"
    "host (endpoint hostless_pivot) = None" "open_tunnel hostless_pivot = Inr 0"
    "paths direct_edge_db = [(1, None, ''10.0.0.5'', 22)]"
    by (simp_all add: pivot_def hostless_pivot_def open_tunnel_def direct_edge_db_def new_endpoint_def)
  have r: "ret ?x = Inr True" and q: "ret ?y = Inr False"
    by code_simp+
  have x: "?x = (Inr True, obj ?x, store ?x, effects ?x)"
    using collapse4 [of ?x] r by simp
  have y: "?y = (Inr False, obj ?y, store ?y, effects ?y)"
    using collapse4 [of ?y] q by simp
  have e: "route_edges_after (Some 1, ip ?e, port ?e) True (paths empty_db) = [(1, Some 1, ''10.0.0.6'', 22)]"
    "route_edges_after (None, ip ?f, port ?f) False (paths direct_edge_db) = []"
    by code_simp+
  from route_edge_bookkeeping [of pivot 1 open_tunnel 0 empty_db ?e
      False denied_login True "obj ?x" "store ?x" "effects ?x"] h x
  obtain d1 where "scan empty_db ?e (Via pivot) False open_tunnel denied_login
        = (Inr True, obj ?x, d1, effects ?x)"
    and "paths d1 = route_edges_after (Some 1, ip ?e, port ?e) True (paths empty_db)"
    by blast
  then have a: "ret (scan empty_db ?e (Via pivot) False open_tunnel denied_login) = Inr True"
    "paths (store (scan empty_db ?e (Via pivot) False open_tunnel denied_login)) = [(1, Some 1, ''10.0.0.6'', 22)]"
    using e by (simp_all add: ret_def store_def)
  from route_edge_bookkeeping [of hostless_pivot _ open_tunnel 0 empty_db ?e False denied_login] h
  have b: "scan empty_db ?e (Via hostless_pivot) False open_tunnel denied_login
       = asyncScan empty_db ?e (Some hostless_pivot) (Some 0) False denied_login"
    by blast
  from route_edge_bookkeeping [of _ _ open_tunnel _ direct_edge_db ?f
      False no_answer False "obj ?y" "store ?y" "effects ?y"] y
  obtain d2 where "scan direct_edge_db ?f NoGateway False open_tunnel no_answer
        = (Inr False, obj ?y, d2, effects ?y)"
    and "paths d2 = route_edges_after (None, ip ?f, port ?f) False (paths direct_edge_db)"
    by blast
  then have c: "paths (store (scan direct_edge_db ?f NoGateway False open_tunnel no_answer)) = []"
    using e by (simp add: store_def)
  from h r q a b c show ?thesis
    by simp
qed

text \<open>
  C1 as stated fails in its last part: a direct probe that succeeds stores an edge,
  from no Host to the target.
\<close>

theorem direct_scan_stores_edge:
  "paths empty_db = []
   \<and> ret (scan empty_db (new_endpoint ''10.0.0.5'' ''22'') NoGateway True open_tunnel denied_login) = Inr True
   \<and> paths (store (scan empty_db (new_endpoint ''10.0.0.5'' ''22'') NoGateway True open_tunnel denied_login))
       = [(1, None, ''10.0.0.5'', 22)]"
  by code_simp

end
